theory Spec2Isabelle
  imports Main "HOL-Library.Word" "HOL-Library.Sublist"
begin

section \<open>The Addressable duck type (apis/duck/v1/addressable\_types.go)\<close>

text \<open>
  A shallow embedding of \<^verbatim>\<open>src/apis/duck/v1/addressable_types.go\<close>. Go structs are
  records, a nilable pointer \<^verbatim>\<open>*T\<close> is \<open>T option\<close> (\<open>None\<close> is \<^verbatim>\<open>nil\<close>), a slice is
  a \<open>list option\<close> (\<open>None\<close> is the nil slice, \<open>Some []\<close> an empty non-nil one), an
  interface value is either nil or a dynamic type together with a value, and a method with
  a pointer receiver takes the receiver's value and returns the value it leaves behind.
\<close>

subsection \<open>Types the file imports\<close>

text \<open>Go's \<^verbatim>\<open>error\<close>: a nil error is \<open>None\<close>; \<^verbatim>\<open>fmt.Errorf\<close> builds a value that
  carries its message.\<close>

datatype error =
    errorString string
  | UnmarshalTypeError (Value: string) (Field: string) (Type: string)

text \<open>The method \<^verbatim>\<open>Error()\<close>; an \<^verbatim>\<open>UnmarshalTypeError\<close> names the JSON value, the
  struct field when there is one, and the Go type.\<close>

fun Error :: "error \<Rightarrow> string" where
  "Error (errorString s) = s"
| "Error (UnmarshalTypeError v f ty) =
     (if f \<noteq> [] then ''json: cannot unmarshal '' @ v @ '' into Go struct field '' @ f
                        @ '' of type '' @ ty
      else ''json: cannot unmarshal '' @ v @ '' into Go value of type '' @ ty)"

text \<open>\<^verbatim>\<open>net/url.Userinfo\<close> and \<^verbatim>\<open>apis.URL\<close> (declared as \<^verbatim>\<open>type URL url.URL\<close>).\<close>

record Userinfo =
  username :: string
  password :: string
  passwordSet :: bool

record URL =
  Scheme :: string
  Opaque :: string
  User :: "Userinfo option"
  Host :: string
  Path :: string
  RawPath :: string
  OmitHost :: bool
  ForceQuery :: bool
  RawQuery :: string
  Fragment :: string
  RawFragment :: string

definition zero_URL :: URL where
  "zero_URL = \<lparr>Scheme = [], Opaque = [], User = None, Host = [], Path = [], RawPath = [],
     OmitHost = False, ForceQuery = False, RawQuery = [], Fragment = [], RawFragment = []\<rparr>"

text \<open>\<^verbatim>\<open>schema.GroupVersion\<close>, \<^verbatim>\<open>schema.GroupVersionKind\<close> and \<^verbatim>\<open>metav1.TypeMeta\<close>.\<close>

record GroupVersion =
  Group :: string
  Version :: string

record GroupVersionKind =
  Group :: string
  Version :: string
  Kind :: string

record TypeMeta =
  Kind :: string
  APIVersion :: string

definition zero_TypeMeta :: TypeMeta where
  "zero_TypeMeta = \<lparr>Kind = [], APIVersion = []\<rparr>"

text \<open>\<^verbatim>\<open>metav1.Time\<close> wraps \<^verbatim>\<open>time.Time\<close>; its location pointer is kept as the
  location's name.\<close>

record Time =
  wall :: "64 word"
  ext :: "64 word"
  loc :: "string option"

definition zero_Time :: Time where
  "zero_Time = \<lparr>wall = 0, ext = 0, loc = None\<rparr>"

record OwnerReference =
  APIVersion :: string
  Kind :: string
  Name :: string
  UID :: string
  Controller :: "bool option"
  BlockOwnerDeletion :: "bool option"

record ManagedFieldsEntry =
  Manager :: string
  Operation :: string
  APIVersion :: string
  Time :: "Time option"
  FieldsType :: string
  FieldsV1 :: "8 word list option"
  Subresource :: string

text \<open>\<^verbatim>\<open>metav1.ObjectMeta\<close>; a Go map is a finite map, \<open>None\<close> the nil map.\<close>

record ObjectMeta =
  Name :: string
  GenerateName :: string
  Namespace :: string
  SelfLink :: string
  UID :: string
  ResourceVersion :: string
  Generation :: "64 word"
  CreationTimestamp :: Time
  DeletionTimestamp :: "Time option"
  DeletionGracePeriodSeconds :: "64 word option"
  Labels :: "(string \<rightharpoonup> string) option"
  Annotations :: "(string \<rightharpoonup> string) option"
  OwnerReferences :: "OwnerReference list option"
  Finalizers :: "string list option"
  ManagedFields :: "ManagedFieldsEntry list option"

definition zero_ObjectMeta :: ObjectMeta where
  "zero_ObjectMeta = \<lparr>Name = [], GenerateName = [], Namespace = [], SelfLink = [],
     UID = [], ResourceVersion = [], Generation = 0, CreationTimestamp = zero_Time,
     DeletionTimestamp = None, DeletionGracePeriodSeconds = None, Labels = None,
     Annotations = None, OwnerReferences = None, Finalizers = None, ManagedFields = None\<rparr>"

text \<open>\<^verbatim>\<open>metav1.ListMeta\<close>.\<close>

record ListMeta =
  SelfLink :: string
  ResourceVersion :: string
  Continue :: string
  RemainingItemCount :: "64 word option"

definition zero_ListMeta :: ListMeta where
  "zero_ListMeta = \<lparr>SelfLink = [], ResourceVersion = [], Continue = [],
     RemainingItemCount = None\<rparr>"

subsection \<open>The structs of the file\<close>

text \<open>
  \<^verbatim>\<open>type Addressable struct {
    Name     *string   `json:"name,omitempty"`
    URL      *apis.URL `json:"url,omitempty"`
    CACerts  *string   `json:"CACerts,omitempty"`
    Audience *string   `json:"audience,omitempty"`
  }\<close>
\<close>

record Addressable =
  Name :: "string option"
  URL :: "URL option"
  CACerts :: "string option"
  Audience :: "string option"

definition zero_Addressable :: Addressable where
  "zero_Addressable = \<lparr>Name = None, URL = None, CACerts = None, Audience = None\<rparr>"

text \<open>
  \<^verbatim>\<open>type AddressStatus struct {
    Address   *Addressable  `json:"address,omitempty"`
    Addresses []Addressable `json:"addresses,omitempty"`
  }\<close>
\<close>

record AddressStatus =
  Address :: "Addressable option"
  Addresses :: "Addressable list option"

definition zero_AddressStatus :: AddressStatus where
  "zero_AddressStatus = \<lparr>Address = None, Addresses = None\<rparr>"

text \<open>
  \<^verbatim>\<open>type AddressableType struct {
    metav1.TypeMeta   `json:",inline"`
    metav1.ObjectMeta `json:"metadata,omitempty"`
    Status AddressStatus `json:"status"`
  }\<close>
  The embedded structs are fields named after their types.
\<close>

record AddressableType =
  TypeMeta :: TypeMeta
  ObjectMeta :: ObjectMeta
  Status :: AddressStatus

definition zero_AddressableType :: AddressableType where
  "zero_AddressableType =
     \<lparr>TypeMeta = zero_TypeMeta, ObjectMeta = zero_ObjectMeta, Status = zero_AddressStatus\<rparr>"

text \<open>
  \<^verbatim>\<open>type AddressableTypeList struct {
    metav1.TypeMeta `json:",inline"`
    metav1.ListMeta `json:"metadata"`
    Items []AddressableType `json:"items"`
  }\<close>
\<close>

record AddressableTypeList =
  TypeMeta :: TypeMeta
  ListMeta :: ListMeta
  Items :: "AddressableType list option"

definition zero_AddressableTypeList :: AddressableTypeList where
  "zero_AddressableTypeList =
     \<lparr>TypeMeta = zero_TypeMeta, ListMeta = zero_ListMeta, Items = None\<rparr>"

subsection \<open>Interface values\<close>

text \<open>
  A value of interface type \<^verbatim>\<open>apis.Convertible\<close> is nil, or a dynamic type (kept as the
  string \<^verbatim>\<open>reflect.TypeOf(v).String()\<close>) with the value stored under it.
\<close>

datatype 'v Convertible = nil_Convertible | Convertible (dynType: string) (dynValue: 'v)

text \<open>The verb \<^verbatim>\<open>%T\<close> of package fmt: the dynamic type's string, \<^verbatim>\<open><nil>\<close> for a
  nil interface.\<close>

fun fmt_T :: "'v Convertible \<Rightarrow> string" where
  "fmt_T nil_Convertible = ''<nil>''"
| "fmt_T (Convertible ty v) = ty"

text \<open>The results of \<^verbatim>\<open>GetFullType\<close> (a \<^verbatim>\<open>ducktypes.Populatable\<close>) and of
  \<^verbatim>\<open>GetListType\<close> (a \<^verbatim>\<open>runtime.Object\<close>): the pointer's dynamic type is the
  constructor, the struct it points to is the argument.\<close>

datatype Object =
    ptr_AddressableType AddressableType
  | ptr_AddressableTypeList AddressableTypeList

subsection \<open>The methods\<close>

text \<open>\<^verbatim>\<open>func (*Addressable) GetFullType() ducktypes.Populatable { return &AddressableType{} }\<close>\<close>

definition GetFullType :: "Addressable \<Rightarrow> Object" where
  "GetFullType a = ptr_AddressableType zero_AddressableType"

text \<open>
  \<^verbatim>\<open>func (a *Addressable) ConvertTo(ctx context.Context, to apis.Convertible) error {
    return fmt.Errorf("v1 is the highest known version, got: %T", to)
  }\<close>
  The model returns, with the error, the receiver and the counterpart as the call leaves
  them.
\<close>

definition ConvertTo ::
  "Addressable \<Rightarrow> 'ctx \<Rightarrow> 'v Convertible \<Rightarrow> (Addressable \<times> 'v Convertible) \<times> error option" where
  "ConvertTo a ctx to =
     ((a, to), Some (errorString (''v1 is the highest known version, got: '' @ fmt_T to)))"

text \<open>
  \<^verbatim>\<open>func (a *Addressable) ConvertFrom(ctx context.Context, from apis.Convertible) error {
    return fmt.Errorf("v1 is the highest known version, got: %T", from)
  }\<close>
\<close>

definition ConvertFrom ::
  "Addressable \<Rightarrow> 'ctx \<Rightarrow> 'v Convertible \<Rightarrow> (Addressable \<times> 'v Convertible) \<times> error option" where
  "ConvertFrom a ctx from =
     ((a, from), Some (errorString (''v1 is the highest known version, got: '' @ fmt_T from)))"

text \<open>
  \<^verbatim>\<open>func (t *AddressableType) Populate() {
    name := "http"
    t.Status = AddressStatus{
      Address: &Addressable{
        // Populate ALL fields
        Name: &name,
        URL: &apis.URL{Scheme: "http", Host: "foo.com"},
      },
    }
  }\<close>
\<close>

definition Populate :: "AddressableType \<Rightarrow> AddressableType" where
  "Populate t =
     (let name = ''http'' in
      t\<lparr>Status :=
          \<lparr>Address = Some \<lparr>Name = Some name,
                             URL = Some (zero_URL\<lparr>Scheme := ''http'', Host := ''foo.com''\<rparr>),
                             CACerts = None,
                             Audience = None\<rparr>,
           Addresses = None\<rparr>\<rparr>)"

text \<open>
  \<^verbatim>\<open>func ParseGroupVersion(gv string) (GroupVersion, error)\<close> of
  \<^verbatim>\<open>k8s.io/apimachinery/pkg/runtime/schema\<close>: the empty string and \<^verbatim>\<open>"/"\<close> give the
  empty group and version, a string with no slash is a version, one slash separates group
  and version, more slashes are an error.
\<close>

definition ParseGroupVersion :: "string \<Rightarrow> error + GroupVersion" where
  "ParseGroupVersion gv =
     (if length gv = 0 \<or> gv = ''/'' then Inr \<lparr>GroupVersion.Group = [], GroupVersion.Version = []\<rparr>
      else (case count_list gv (CHR ''/'') of
              0 \<Rightarrow> Inr \<lparr>GroupVersion.Group = [], GroupVersion.Version = gv\<rparr>
            | Suc 0 \<Rightarrow>
                (let i = length (takeWhile (\<lambda>c. c \<noteq> CHR ''/'') gv)
                 in Inr \<lparr>GroupVersion.Group = take i gv, GroupVersion.Version = drop (i + 1) gv\<rparr>)
            | Suc (Suc n) \<Rightarrow> Inl (errorString (''unexpected GroupVersion string: '' @ gv))))"

text \<open>
  \<^verbatim>\<open>func FromAPIVersionAndKind(apiVersion, kind string) GroupVersionKind {
    if gv, err := ParseGroupVersion(apiVersion); err == nil {
      return GroupVersionKind{Group: gv.Group, Version: gv.Version, Kind: kind}
    }
    return GroupVersionKind{Kind: kind}
  }\<close>
\<close>

definition FromAPIVersionAndKind :: "string \<Rightarrow> string \<Rightarrow> GroupVersionKind" where
  "FromAPIVersionAndKind apiVersion kind =
     (case ParseGroupVersion apiVersion of
        Inr gv \<Rightarrow> \<lparr>Group = GroupVersion.Group gv, Version = GroupVersion.Version gv,
                   GroupVersionKind.Kind = kind\<rparr>
      | Inl err \<Rightarrow> \<lparr>Group = [], Version = [], GroupVersionKind.Kind = kind\<rparr>)"

text \<open>\<^verbatim>\<open>func (obj *TypeMeta) GroupVersionKind() schema.GroupVersionKind {
    return schema.FromAPIVersionAndKind(obj.APIVersion, obj.Kind) }\<close>, the method
  that \<^verbatim>\<open>AddressableType\<close> gets from its embedded \<^verbatim>\<open>TypeMeta\<close>.\<close>

definition TypeMeta_GroupVersionKind :: "TypeMeta \<Rightarrow> GroupVersionKind" where
  "TypeMeta_GroupVersionKind obj =
     FromAPIVersionAndKind (TypeMeta.APIVersion obj) (TypeMeta.Kind obj)"

text \<open>\<^verbatim>\<open>func (t *AddressableType) GetGroupVersionKind() schema.GroupVersionKind {
    return t.GroupVersionKind() }\<close>\<close>

definition GetGroupVersionKind :: "AddressableType \<Rightarrow> GroupVersionKind" where
  "GetGroupVersionKind t = TypeMeta_GroupVersionKind (AddressableType.TypeMeta t)"

text \<open>\<^verbatim>\<open>func (*AddressableType) GetListType() runtime.Object { return &AddressableTypeList{} }\<close>\<close>

definition GetListType :: "AddressableType \<Rightarrow> Object" where
  "GetListType t = ptr_AddressableTypeList zero_AddressableTypeList"

subsection \<open>The serialized form\<close>

text \<open>
  The struct tags fix how \<^verbatim>\<open>encoding/json\<close> writes and reads the structs. The model
  works on JSON values: an object is the list of its members in the order written.
\<close>

datatype json =
    JNull
  | JBool bool
  | JNumber string
  | JString string
  | JArray "json list"
  | JObject "(string \<times> json) list"


fun members :: "json \<Rightarrow> (string \<times> json) list" where
  "members (JObject kvs) = kvs"
| "members j = []"

definition keys :: "json \<Rightarrow> string list" where
  "keys j = map fst (members j)"

text \<open>
  Two things the encoder takes from outside this file are parameters of the model.
  \<^item> \<open>coerce\<close>: how the encoder writes a Go string. That of \<^verbatim>\<open>encoding/json\<close> is
    \<open>coerce_utf8\<close> below; the decoder returns the text of a JSON string as it is.
  \<^item> \<open>url_marshal\<close> and \<open>url_unmarshal\<close>. Modelled from the spec: the methods
    \<^verbatim>\<open>MarshalJSON\<close> and \<^verbatim>\<open>UnmarshalJSON\<close> of \<^verbatim>\<open>apis.URL\<close> are declared outside
    \<^verbatim>\<open>src/\<close>; the spec lists "a URL value type supporting absolute-URL parsing and
    round-trip serialization" among the consumed interfaces and serializes a URL as one
    JSON string. \<open>url_marshal\<close> gives the text of that string or an error,
    \<open>url_unmarshal\<close> parses it.
\<close>







text \<open>A pointer field tagged \<^verbatim>\<open>omitempty\<close>: no member when the pointer is nil.\<close>

fun ptr_field ::
  "string \<Rightarrow> ('a \<Rightarrow> error + json) \<Rightarrow> 'a option \<Rightarrow> error + (string \<times> json) list" where
  "ptr_field key enc None = Inr []"
| "ptr_field key enc (Some v) = (case enc v of Inl e \<Rightarrow> Inl e | Inr j \<Rightarrow> Inr [(key, j)])"

text \<open>The elements of an array, in order; the first error ends the encoding.\<close>

fun marshal_elems :: "('a \<Rightarrow> error + json) \<Rightarrow> 'a list \<Rightarrow> error + json list" where
  "marshal_elems enc [] = Inr []"
| "marshal_elems enc (x # xs) =
     (case enc x of
        Inl e \<Rightarrow> Inl e
      | Inr j \<Rightarrow> (case marshal_elems enc xs of Inl e \<Rightarrow> Inl e | Inr js \<Rightarrow> Inr (j # js)))"

text \<open>A slice field tagged \<^verbatim>\<open>omitempty\<close>: no member when the slice has length 0, nil
  or not.\<close>

fun slice_field ::
  "string \<Rightarrow> ('a \<Rightarrow> error + json) \<Rightarrow> 'a list option \<Rightarrow> error + (string \<times> json) list" where
  "slice_field key enc None = Inr []"
| "slice_field key enc (Some []) = Inr []"
| "slice_field key enc (Some (x # xs)) =
     (case marshal_elems enc (x # xs) of Inl e \<Rightarrow> Inl e | Inr js \<Rightarrow> Inr [(key, JArray js)])"

text \<open>The fields of a struct are written in declaration order; the first error ends the
  encoding.\<close>

fun struct_fields :: "(error + (string \<times> json) list) list \<Rightarrow> error + json" where
  "struct_fields [] = Inr (JObject [])"
| "struct_fields (f # fs) =
     (case f of
        Inl e \<Rightarrow> Inl e
      | Inr kvs \<Rightarrow> (case struct_fields fs of
                     Inl e \<Rightarrow> Inl e
                   | Inr j \<Rightarrow> Inr (JObject (kvs @ members j))))"

definition marshal_string :: "(string \<Rightarrow> string) \<Rightarrow> string \<Rightarrow> error + json" where
  "marshal_string coerce s = Inr (JString (coerce s))"

definition marshal_URL :: "(URL \<Rightarrow> error + string) \<Rightarrow> URL \<Rightarrow> error + json" where
  "marshal_URL url_marshal u =
     (case url_marshal u of Inl e \<Rightarrow> Inl e | Inr s \<Rightarrow> Inr (JString s))"

text \<open>\<^verbatim>\<open>json.Marshal\<close> of an \<^verbatim>\<open>Addressable\<close>, by its tags \<^verbatim>\<open>name,omitempty\<close>,
  \<^verbatim>\<open>url,omitempty\<close>, \<^verbatim>\<open>CACerts,omitempty\<close>, \<^verbatim>\<open>audience,omitempty\<close>.\<close>

definition marshal_Addressable ::
  "(string \<Rightarrow> string) \<Rightarrow> (URL \<Rightarrow> error + string) \<Rightarrow> Addressable \<Rightarrow> error + json" where
  "marshal_Addressable coerce url_marshal a =
     struct_fields
       [ptr_field ''name'' (marshal_string coerce) (Addressable.Name a),
        ptr_field ''url'' (marshal_URL url_marshal) (URL a),
        ptr_field ''CACerts'' (marshal_string coerce) (CACerts a),
        ptr_field ''audience'' (marshal_string coerce) (Audience a)]"

text \<open>\<^verbatim>\<open>json.Marshal\<close> of an \<^verbatim>\<open>AddressStatus\<close>, by its tags \<^verbatim>\<open>address,omitempty\<close>
  and \<^verbatim>\<open>addresses,omitempty\<close>.\<close>

definition marshal_AddressStatus ::
  "(string \<Rightarrow> string) \<Rightarrow> (URL \<Rightarrow> error + string) \<Rightarrow> AddressStatus \<Rightarrow> error + json" where
  "marshal_AddressStatus coerce url_marshal s =
     struct_fields
       [ptr_field ''address'' (marshal_Addressable coerce url_marshal) (Address s),
        slice_field ''addresses'' (marshal_Addressable coerce url_marshal) (Addresses s)]"










subsection \<open>Resolving a destination\<close>

text \<open>
  Modelled from the spec: the consumer that resolves a destination from an
  \<^verbatim>\<open>AddressStatus\<close> is not under \<^verbatim>\<open>src/\<close>, which holds only the field comments "If
  Addresses is present, Address must be ignored by clients". The spec's rule: "If
  addresses is present and non-empty, address is ignored by consumers. Otherwise, if
  address is present, it is the sole destination. If both are absent, the owner is not
  yet ready for delivery." \<open>destinations\<close> is the list a consumer selects from; the empty
  list means that the owner is not ready.
\<close>

definition destinations :: "AddressStatus \<Rightarrow> Addressable list" where
  "destinations s =
     (case Addresses s of
        Some (x # xs) \<Rightarrow> x # xs
      | _ \<Rightarrow> (case Address s of Some a \<Rightarrow> [a] | None \<Rightarrow> []))"

section \<open>Conversion\<close>

text \<open>
  Claim C1. For every counterpart passed to it, \<open>ConvertTo\<close> returns an error, never nil,
  and the error's message contains the counterpart's concrete type identity as \<^verbatim>\<open>%T\<close>
  prints it (the dynamic type's string, which for a nil interface is \<^verbatim>\<open><nil>\<close>);
  \<open>ConvertFrom\<close> does the same for its source argument.
\<close>

theorem ConvertTo_ConvertFrom_fail:
  "map_option Error (snd (ConvertTo a ctx to)) =
     Some (''v1 is the highest known version, got: '' @ fmt_T to)
   \<and> sublist (fmt_T to) (Error (the (snd (ConvertTo a ctx to))))
   \<and> map_option Error (snd (ConvertFrom a ctx' from)) =
     Some (''v1 is the highest known version, got: '' @ fmt_T from)
   \<and> sublist (fmt_T from) (Error (the (snd (ConvertFrom a ctx' from))))
   \<and> fmt_T (Convertible ty v) = ty"
proof -
  have msg: "\<And>pre (c :: 'x Convertible). sublist (fmt_T c) (pre @ fmt_T c)"
    by (rule sublist_append_leftI)
  have to: "Error (the (snd (ConvertTo a ctx to))) =
      ''v1 is the highest known version, got: '' @ fmt_T to"
    by (simp only: ConvertTo_def snd_conv option.sel Error.simps)
  have "from": "Error (the (snd (ConvertFrom a ctx' from))) =
      ''v1 is the highest known version, got: '' @ fmt_T from"
    by (simp only: ConvertFrom_def snd_conv option.sel Error.simps)
  show ?thesis
    unfolding to "from"
    by (simp only: msg ConvertTo_def ConvertFrom_def snd_conv option.map Error.simps
        fmt_T.simps simp_thms)
qed

text \<open>
  Claim C9. \<open>ConvertTo\<close> and \<open>ConvertFrom\<close> are atomic on error: for every receiver and
  every counterpart the call returns an error and leaves the receiver's fields and the
  counterpart exactly as they were.
\<close>

theorem Convert_leaves_state:
  "fst (ConvertTo a ctx to) = (a, to) \<and> snd (ConvertTo a ctx to) \<noteq> None
   \<and> fst (ConvertFrom a ctx' from) = (a, from) \<and> snd (ConvertFrom a ctx' from) \<noteq> None"
  by (simp add: ConvertTo_def ConvertFrom_def)

section \<open>The serialized form\<close>







lemma ptr_field_keys:
  "ptr_field key enc p = Inr kvs \<Longrightarrow> map fst kvs = (if p = None then [] else [key])"
  by (cases p) (auto split: sum.splits)

lemma slice_field_keys:
  "slice_field key enc p = Inr kvs \<Longrightarrow>
     map fst kvs = (if p = None \<or> p = Some [] then [] else [key])"
  by (cases "(key, enc, p)" rule: slice_field.cases) (auto split: sum.splits)






text \<open>
  Claim C6. Each \<open>Addressable\<close> field serializes under exactly its case-sensitive key and
  is omitted from the object when absent: name under \<open>name\<close>, url under \<open>url\<close>, the
  trust bundle under \<open>CACerts\<close>, audience under \<open>audience\<close>. An \<open>AddressStatus\<close> uses
  the keys \<open>address\<close> and \<open>addresses\<close>, the second being omitted for a list of length 0.
\<close>

theorem serialized_keys:
  "(marshal_Addressable coerce url_marshal a = Inr j \<longrightarrow>
      keys j = (if Addressable.Name a = None then [] else [''name''])
             @ (if URL a = None then [] else [''url''])
             @ (if CACerts a = None then [] else [''CACerts''])
             @ (if Audience a = None then [] else [''audience'']))
   \<and> (marshal_AddressStatus coerce url_marshal s = Inr j' \<longrightarrow>
      keys j' = (if Address s = None then [] else [''address''])
              @ (if Addresses s = None \<or> Addresses s = Some [] then [] else [''addresses'']))"
proof (intro conjI impI)
  assume "marshal_Addressable coerce url_marshal a = Inr j"
  then show "keys j = (if Addressable.Name a = None then [] else [''name''])
             @ (if URL a = None then [] else [''url''])
             @ (if CACerts a = None then [] else [''CACerts''])
             @ (if Audience a = None then [] else [''audience''])"
    unfolding marshal_Addressable_def keys_def
    by (auto split: sum.splits dest!: ptr_field_keys simp del: ptr_field.simps)
next
  assume "marshal_AddressStatus coerce url_marshal s = Inr j'"
  then show "keys j' = (if Address s = None then [] else [''address''])
              @ (if Addresses s = None \<or> Addresses s = Some [] then [] else [''addresses''])"
    unfolding marshal_AddressStatus_def keys_def
    by (auto split: sum.splits dest!: ptr_field_keys slice_field_keys
        simp del: ptr_field.simps slice_field.simps)
qed

theorem serialized_keys_witness:
  "marshal_Addressable (\<lambda>s. s) (\<lambda>u. Inr (Scheme u @ ''://'' @ Host u))
      \<lparr>Addressable.Name = Some ''http'',
       URL = Some (zero_URL\<lparr>Scheme := ''http'', Host := ''foo.com''\<rparr>),
       CACerts = None, Audience = None\<rparr>
     = Inr (JObject [(''name'', JString ''http''), (''url'', JString ''http://foo.com'')])
   \<and> keys (JObject [(''name'', JString ''http''), (''url'', JString ''http://foo.com'')])
     = [''name'', ''url'']
   \<and> marshal_AddressStatus (\<lambda>s. s) (\<lambda>u. Inr (Scheme u @ ''://'' @ Host u))
      \<lparr>Address = Some \<lparr>Addressable.Name = None, URL = None, CACerts = Some ''pem'',
                         Audience = None\<rparr>,
       Addresses = Some [\<lparr>Addressable.Name = None, URL = None, CACerts = None,
                          Audience = Some ''aud''\<rparr>]\<rparr>
     = Inr (JObject [(''address'', JObject [(''CACerts'', JString ''pem'')]),
                     (''addresses'', JArray [JObject [(''audience'', JString ''aud'')]])])
   \<and> keys (JObject [(''address'', JObject [(''CACerts'', JString ''pem'')]),
                     (''addresses'', JArray [JObject [(''audience'', JString ''aud'')]])])
     = [''address'', ''addresses'']"
  using serialized_keys [of "\<lambda>s. s" "\<lambda>u. Inr (Scheme u @ ''://'' @ Host u)"
      "\<lparr>Addressable.Name = Some ''http'',
       URL = Some (zero_URL\<lparr>Scheme := ''http'', Host := ''foo.com''\<rparr>),
       CACerts = None, Audience = None\<rparr>"
      "JObject [(''name'', JString ''http''), (''url'', JString ''http://foo.com'')]"
      "\<lparr>Address = Some \<lparr>Addressable.Name = None, URL = None, CACerts = Some ''pem'',
                         Audience = None\<rparr>,
       Addresses = Some [\<lparr>Addressable.Name = None, URL = None, CACerts = None,
                          Audience = Some ''aud''\<rparr>]\<rparr>"
      "JObject [(''address'', JObject [(''CACerts'', JString ''pem'')]),
                     (''addresses'', JArray [JObject [(''audience'', JString ''aud'')]])]"]
  by (simp add: marshal_Addressable_def marshal_AddressStatus_def marshal_string_def
      marshal_URL_def zero_URL_def)

section \<open>Resolving a destination\<close>

text \<open>
  Claim C3. A consumer resolving a destination from an \<open>AddressStatus\<close> selects from the
  addresses list alone when that list is present and non-empty, whatever the scalar
  address is; when addresses is absent or empty and address is present, address is the
  sole destination; when both are absent there is no destination (the owner is not
  ready).
\<close>

theorem destinations_precedence:
  "(Addresses s = Some as \<and> as \<noteq> [] \<longrightarrow>
      destinations s = as \<and> destinations (s\<lparr>Address := x\<rparr>) = as)
   \<and> ((Addresses s = None \<or> Addresses s = Some []) \<and> Address s = Some a \<longrightarrow>
      destinations s = [a])
   \<and> ((Addresses s = None \<or> Addresses s = Some []) \<and> Address s = None \<longrightarrow>
      destinations s = [])"
  by (cases as) (auto simp: destinations_def)

theorem destinations_precedence_witness:
  "destinations
      \<lparr>Address = Some (zero_Addressable\<lparr>Addressable.Name := Some ''A''\<rparr>),
       Addresses = Some [zero_Addressable\<lparr>Addressable.Name := Some ''B''\<rparr>,
                         zero_Addressable\<lparr>Addressable.Name := Some ''C''\<rparr>]\<rparr>
     = [zero_Addressable\<lparr>Addressable.Name := Some ''B''\<rparr>,
        zero_Addressable\<lparr>Addressable.Name := Some ''C''\<rparr>]
   \<and> destinations
      \<lparr>Address = Some (zero_Addressable\<lparr>Addressable.Name := Some ''A''\<rparr>),
       Addresses = Some []\<rparr>
     = [zero_Addressable\<lparr>Addressable.Name := Some ''A''\<rparr>]
   \<and> destinations \<lparr>Address = None, Addresses = None\<rparr> = []"
  using
    destinations_precedence
      [of "\<lparr>Address = Some (zero_Addressable\<lparr>Addressable.Name := Some ''A''\<rparr>),
            Addresses = Some [zero_Addressable\<lparr>Addressable.Name := Some ''B''\<rparr>,
                              zero_Addressable\<lparr>Addressable.Name := Some ''C''\<rparr>]\<rparr>"
          "[zero_Addressable\<lparr>Addressable.Name := Some ''B''\<rparr>,
            zero_Addressable\<lparr>Addressable.Name := Some ''C''\<rparr>]"]
    destinations_precedence
      [of "\<lparr>Address = Some (zero_Addressable\<lparr>Addressable.Name := Some ''A''\<rparr>),
            Addresses = Some []\<rparr>" _ _
          "zero_Addressable\<lparr>Addressable.Name := Some ''A''\<rparr>"]
    destinations_precedence [of "\<lparr>Address = None, Addresses = None\<rparr>"]
  by simp

section \<open>Populate\<close>

text \<open>
  Claim C4. Applied to any \<open>AddressableType\<close>, in particular the zero skeleton,
  \<open>Populate\<close> yields a status whose scalar address is present, with name \<open>http\<close>, URL
  scheme \<open>http\<close> and URL host \<open>foo.com\<close>, and with neither a trust bundle (CACerts) nor
  an audience.
\<close>

theorem Populate_address:
  "\<exists>a u. Address (Status (Populate t)) = Some a
     \<and> Addressable.Name a = Some ''http''
     \<and> URL a = Some u \<and> Scheme u = ''http'' \<and> Host u = ''foo.com''
     \<and> CACerts a = None \<and> Audience a = None"
  by (simp add: Populate_def)

text \<open>
  Claim C5 says that after \<open>Populate\<close> every documented field (name, url, CACerts and
  audience of an \<open>Addressable\<close>; address and addresses of the status) is present on some
  object reachable from the skeleton. On the zero skeleton the only \<open>Addressable\<close> that
  \<open>Populate\<close> makes reachable is the scalar address, whose CACerts and audience are
  nil, and the addresses list is nil, although the literal carries the comment
  "Populate ALL fields".
\<close>

theorem Populate_absent_fields:
  "map_option CACerts (Address (Status (Populate zero_AddressableType))) = Some None
   \<and> map_option Audience (Address (Status (Populate zero_AddressableType))) = Some None
   \<and> Addresses (Status (Populate zero_AddressableType)) = None"
  by (simp add: Populate_def)

text \<open>
  Claim C10. \<open>Populate\<close> replaces the whole status: the new status does not depend on
  the receiver's prior state, its addresses list is absent, and its address has neither
  trust bundle nor audience; the \<open>TypeMeta\<close> and \<open>ObjectMeta\<close> of the skeleton are
  unchanged.
\<close>

theorem Populate_replaces_Status:
  "Status (Populate t) = Status (Populate t')
   \<and> Addresses (Status (Populate t)) = None
   \<and> map_option CACerts (Address (Status (Populate t))) = Some None
   \<and> map_option Audience (Address (Status (Populate t))) = Some None
   \<and> AddressableType.TypeMeta (Populate t) = AddressableType.TypeMeta t
   \<and> ObjectMeta (Populate t) = ObjectMeta t"
  by (simp add: Populate_def)

section \<open>Kind and list type\<close>

text \<open>
  Claim C7 says that \<open>GetGroupVersionKind\<close> returns one fixed triple for every
  \<open>AddressableType\<close>, not a value that varies with, or is empty for, the instance's
  embedded type metadata. The zero skeleton reports the empty triple and a skeleton whose
  \<open>TypeMeta\<close> is filled in reports another one.
\<close>

theorem GetGroupVersionKind_not_fixed:
  "GetGroupVersionKind zero_AddressableType
     = \<lparr>Group = [], Version = [], GroupVersionKind.Kind = []\<rparr>
   \<and> GetGroupVersionKind
        (zero_AddressableType\<lparr>AddressableType.TypeMeta :=
           \<lparr>TypeMeta.Kind = ''AddressableType'', TypeMeta.APIVersion = ''duck.knative.dev/v1''\<rparr>\<rparr>)
       = \<lparr>Group = ''duck.knative.dev'', Version = ''v1'',
          GroupVersionKind.Kind = ''AddressableType''\<rparr>
   \<and> GetGroupVersionKind
        (zero_AddressableType\<lparr>AddressableType.TypeMeta :=
           \<lparr>TypeMeta.Kind = ''AddressableType'', TypeMeta.APIVersion = ''duck.knative.dev/v1''\<rparr>\<rparr>)
       \<noteq> GetGroupVersionKind zero_AddressableType"
  by (simp add: GetGroupVersionKind_def TypeMeta_GroupVersionKind_def FromAPIVersionAndKind_def
      ParseGroupVersion_def zero_AddressableType_def zero_TypeMeta_def)

text \<open>
  Claim C7 as amended. \<open>GetGroupVersionKind\<close> returns the triple read from the
  instance's embedded \<open>TypeMeta\<close>: group and version parsed from its \<open>APIVersion\<close>, kind
  its \<open>Kind\<close>. The result does not depend on the object metadata or the status, and it
  is the empty triple when the \<open>TypeMeta\<close> is zero.
\<close>

theorem GetGroupVersionKind_from_TypeMeta:
  "GetGroupVersionKind t =
     FromAPIVersionAndKind (TypeMeta.APIVersion (AddressableType.TypeMeta t))
       (TypeMeta.Kind (AddressableType.TypeMeta t))
   \<and> GroupVersionKind.Kind (GetGroupVersionKind t) = TypeMeta.Kind (AddressableType.TypeMeta t)
   \<and> GetGroupVersionKind (t\<lparr>ObjectMeta := om, Status := st\<rparr>) = GetGroupVersionKind t
   \<and> GetGroupVersionKind (t\<lparr>AddressableType.TypeMeta := zero_TypeMeta\<rparr>)
       = \<lparr>Group = [], Version = [], GroupVersionKind.Kind = []\<rparr>"
  by (simp add: GetGroupVersionKind_def TypeMeta_GroupVersionKind_def FromAPIVersionAndKind_def
      ParseGroupVersion_def zero_TypeMeta_def split: sum.splits)

text \<open>
  Claim C8. For every \<open>AddressableType\<close>, \<open>GetListType\<close> returns a pointer to a
  zero-value \<open>AddressableTypeList\<close>, whose items are of type \<open>AddressableType\<close>; for
  every \<open>Addressable\<close>, \<open>GetFullType\<close> returns a pointer to a zero-value
  \<open>AddressableType\<close>, the skeleton whose status embeds the \<open>Addressable\<close> shape.
\<close>

theorem GetListType_GetFullType_zero:
  "GetListType t = ptr_AddressableTypeList zero_AddressableTypeList
   \<and> Items zero_AddressableTypeList = (None :: AddressableType list option)
   \<and> GetFullType a = ptr_AddressableType zero_AddressableType
   \<and> Status zero_AddressableType = \<lparr>Address = (None :: Addressable option), Addresses = None\<rparr>"
  by (simp add: GetListType_def GetFullType_def zero_AddressableTypeList_def
      zero_AddressableType_def zero_AddressStatus_def)

end
